theory Spec2Isabelle
  imports Main "HOL-Library.Word"
begin

section \<open>Shared constants (constants.ts, constants.go)\<close>

text \<open>
  The byte arrays of the test suite are \<open>number[]\<close> in TypeScript and \<open>[]byte\<close> in Go;
  every element is a value in \<open>0..255\<close>, modelled as a natural number.
\<close>

type_synonym byte = nat

definition TEST_PRIVATE_KEY_WIF :: string where
  "TEST_PRIVATE_KEY_WIF = ''L4B2postXdaP7TiUrUBYs53Fqzheu7WhSoQVPuY8qBdoBeEwbmZx''"

definition INITIAL_NONCE_B64 :: string where
  "INITIAL_NONCE_B64 = ''QUFBQUFBQUFBQUFBQUFBQUFBQUFBQUFBQUFBQUFBQUE=''"

definition SESSION_NONCE_B64 :: string where
  "SESSION_NONCE_B64 = ''QkJCQkJCQkJCQkJCQkJCQkJCQkJCQkJCQkJCQkJCQkI=''"

definition INITIAL_NONCE_BYTES :: "byte list" where
  "INITIAL_NONCE_BYTES =
     [65,65,65,65,65,65,65,65,65,65,65,65,65,65,65,65,
      65,65,65,65,65,65,65,65,65,65,65,65,65,65,65,65]"

definition SESSION_NONCE_BYTES :: "byte list" where
  "SESSION_NONCE_BYTES =
     [66,66,66,66,66,66,66,66,66,66,66,66,66,66,66,66,
      66,66,66,66,66,66,66,66,66,66,66,66,66,66,66,66]"

text \<open>\<open>PROTOCOL_ID = [2, "auth message signature"]\<close>: security level and protocol name.\<close>

definition PROTOCOL_ID :: "nat \<times> string" where
  "PROTOCOL_ID = (2, ''auth message signature'')"

text \<open>
  \<open>makeKeyId\<close> is the template literal \<open>`${initialNonce} ${sessionNonce}`\<close> in
  TypeScript and \<open>initialNonce + " " + sessionNonce\<close> in Go.
\<close>

definition makeKeyId :: "string \<Rightarrow> string \<Rightarrow> string" where
  "makeKeyId initialNonce sessionNonce = initialNonce @ '' '' @ sessionNonce"

definition TEST_COUNTERPARTY_KEY :: string where
  "TEST_COUNTERPARTY_KEY =
     ''0279be667ef9dcbbac55a06295ce870b07029bfcdb2dce28d959f2815b16f81798''"

definition EXPECTED_SIG_DATA_SIGNING :: "byte list" where
  "EXPECTED_SIG_DATA_SIGNING =
     [65,65,65,65,65,65,65,65,65,65,65,65,65,65,65,65,
      65,65,65,65,65,65,65,65,65,65,65,65,65,65,65,65,
      66,66,66,66,66,66,66,66,66,66,66,66,66,66,66,66,
      66,66,66,66,66,66,66,66,66,66,66,66,66,66,66,66]"

definition EXPECTED_SIG_DATA_VERIFICATION :: "byte list" where
  "EXPECTED_SIG_DATA_VERIFICATION =
     [66,66,66,66,66,66,66,66,66,66,66,66,66,66,66,66,
      66,66,66,66,66,66,66,66,66,66,66,66,66,66,66,66,
      65,65,65,65,65,65,65,65,65,65,65,65,65,65,65,65,
      65,65,65,65,65,65,65,65,65,65,65,65,65,65,65,65]"


section \<open>Base64 decoding on Node (Buffer.from(data, 'base64'))\<close>

text \<open>
  The test helpers call the runtime's decoder \<open>Buffer.from(data, 'base64')\<close>. It is
  not repository code; the helpers below take it as a parameter, and this section gives the
  decoder of the Node runtime the suite runs on. Node maps the characters of the standard
  and of the URL-safe alphabet to six-bit values, skips every other character, and stops at
  the first padding character \<open>=\<close>. Four six-bit values give three bytes; a final
  group of three gives two bytes, of two gives one byte, and a single left-over value gives
  none. The decoder never throws. A JavaScript string is a sequence of 16-bit code units, of
  which the decoder reads the low byte; the model takes texts of 8-bit characters, which
  include every Base64 text. The suite's own assertions fix its results on the inputs
  used below: each fixed nonce decodes to its 32-byte constant, and the two Base64 texts
  concatenated decode to 32 bytes.
\<close>

definition unbase64 :: "char \<Rightarrow> nat option" where
  "unbase64 c =
     (let n = (of_char c :: nat) in
      if 65 \<le> n \<and> n \<le> 90 then Some (n - 65)
      else if 97 \<le> n \<and> n \<le> 122 then Some (n - 71)
      else if 48 \<le> n \<and> n \<le> 57 then Some (n + 4)
      else if n = 43 \<or> n = 45 then Some 62
      else if n = 47 \<or> n = 95 then Some 63
      else None)"

fun sextets :: "string \<Rightarrow> nat list" where
  "sextets [] = []"
| "sextets (c # cs) =
     (if c = CHR ''='' then []
      else case unbase64 c of Some v \<Rightarrow> v # sextets cs | None \<Rightarrow> sextets cs)"

fun sextets_to_bytes :: "nat list \<Rightarrow> byte list" where
  "sextets_to_bytes (a # b # c # d # rest) =
     [a * 4 + b div 16, (b mod 16) * 16 + c div 4, (c mod 4) * 64 + d] @ sextets_to_bytes rest"
| "sextets_to_bytes [a, b, c] = [a * 4 + b div 16, (b mod 16) * 16 + c div 4]"
| "sextets_to_bytes [a, b] = [a * 4 + b div 16]"
| "sextets_to_bytes [a] = []"
| "sextets_to_bytes [] = []"

definition Buffer_from_base64 :: "string \<Rightarrow> byte list" where
  "Buffer_from_base64 data = sextets_to_bytes (sextets data)"

text \<open>
  Modelled from the spec: \<open>base64(nonce)\<close>, the transport encoding of a nonce. The
  encoder is not in the repository; this is the standard alphabet with padding, against
  which the decoder is checked below.
\<close>

definition base64_char :: "nat \<Rightarrow> char" where
  "base64_char v =
     (if v < 26 then char_of (65 + v)
      else if v < 52 then char_of (71 + v)
      else if v < 62 then char_of (v - 4)
      else if v = 62 then CHR ''+''
      else CHR ''/'')"

fun base64 :: "byte list \<Rightarrow> string" where
  "base64 (x # y # z # rest) =
     [base64_char (x div 4), base64_char ((x mod 4) * 16 + y div 16),
      base64_char ((y mod 16) * 4 + z div 64), base64_char (z mod 64)] @ base64 rest"
| "base64 [x, y] =
     [base64_char (x div 4), base64_char ((x mod 4) * 16 + y div 16),
      base64_char ((y mod 16) * 4), CHR ''='']"
| "base64 [x] = [base64_char (x div 4), base64_char ((x mod 4) * 16), CHR ''='', CHR ''='']"
| "base64 [] = []"


section \<open>Signature data helpers (test_brc104_signatures.ts)\<close>

text \<open>
  Both helpers read \<open>globalThis.Buffer\<close> first: \<open>BufferCtor\<close> is \<open>undefined\<close> on a
  runtime without it (\<open>None\<close>), and then the helpers return the empty array. On Node it
  is the decoder above.
\<close>

type_synonym BufferCtor = "(string \<Rightarrow> byte list) option"

definition node_Buffer :: BufferCtor where
  "node_Buffer = Some Buffer_from_base64"

definition buggyBase64ToBytes :: "BufferCtor \<Rightarrow> string \<Rightarrow> byte list" where
  "buggyBase64ToBytes BufferCtor data =
     (case BufferCtor of
        Some from_base64 \<Rightarrow> from_base64 data
      | None \<Rightarrow> [])"

definition correctSignatureDataPrep :: "BufferCtor \<Rightarrow> string \<Rightarrow> string \<Rightarrow> byte list" where
  "correctSignatureDataPrep BufferCtor nonce1 nonce2 =
     (case BufferCtor of
        Some from_base64 \<Rightarrow>
          (let bytes1 = from_base64 nonce1;
               bytes2 = from_base64 nonce2
           in bytes1 @ bytes2)
      | None \<Rightarrow> [])"


section \<open>Key derivation\<close>

subsection \<open>Data model and external primitives\<close>

text \<open>The error taxonomy of the derivation core; \<open>DerivationFailed\<close> wraps the failure below it.\<close>

datatype error =
    InvalidProtocolDescriptor
  | InvalidKeyID
  | InvalidReferencePoint
  | DegenerateScalar
  | InvalidCounterparty
  | InvalidCounterpartyForPrivateDerivation
  | DerivationFailed error
  | InvalidNonceLength
  | InvalidEncoding

datatype 'p Counterparty = Self | Anyone | OtherParty 'p

record Protocol =
  securityLevel :: nat
  protocolName :: string

record 'p RootIdentity =
  privateScalar :: int
  publicPoint :: 'p

text \<open>
  The curve library, the HMAC and the interoperability constants are external to the
  repository and are parameters of the model: the generator \<open>curve.g\<close>, point addition,
  scalar multiplication, the group order, the identity point, the fixed point used for
  \<open>Anyone\<close>, the HMAC of a reference point and an invoice number read as an integer, the
  textual form of an invoice number, and the longest protocol name accepted.
\<close>

record 'p Env =
  curve_g :: 'p
  curve_add :: "'p \<Rightarrow> 'p \<Rightarrow> 'p"
  curve_multiply :: "int \<Rightarrow> 'p \<Rightarrow> 'p"
  CURVE_ORDER :: int
  identityPoint :: 'p
  anyonePoint :: 'p
  hmac :: "'p \<Rightarrow> string \<Rightarrow> int"
  invoiceToken :: "nat \<Rightarrow> string \<Rightarrow> string \<Rightarrow> string"
  maxProtocolNameLength :: nat

text \<open>
  The key codecs used by the comparison harness: \<open>PrivateKey.fromWif\<close>,
  \<open>PublicKey.fromString\<close>, \<open>PrivateKey.toHex\<close> and \<open>PublicKey.toString\<close>.
\<close>

record 'p Codecs =
  fromWif :: "string \<Rightarrow> int"
  fromString :: "string \<Rightarrow> 'p"
  toHex :: "int \<Rightarrow> string"
  toString :: "'p \<Rightarrow> string"

text \<open>
  Modelled from the spec: the public point of a private scalar (\<open>toPublicKey\<close>,
  \<open>PubKey\<close>, \<open>public_key\<close> of the SDKs, which are not in the repository) is the
  scalar multiple of the generator, \<open>P = d\<cdot>G\<close>.
\<close>

definition publicKeyOf :: "'p Env \<Rightarrow> int \<Rightarrow> 'p" where
  "publicKeyOf E d = curve_multiply E d (curve_g E)"

text \<open>
  Modelled from the spec: \<open>buildInvoiceNumber\<close> (\<open>computeInvoiceNumber\<close> of the SDKs,
  not in the repository) fails with \<open>InvalidProtocolDescriptor\<close> if the protocol name is
  empty or exceeds the fixed maximum length, with \<open>InvalidKeyID\<close> if the key identifier
  is empty, and otherwise returns the canonical token.
\<close>

definition buildInvoiceNumber :: "'p Env \<Rightarrow> Protocol \<Rightarrow> string \<Rightarrow> error + string" where
  "buildInvoiceNumber E protocol keyID =
     (if protocolName protocol = [] \<or> maxProtocolNameLength E < length (protocolName protocol)
      then Inl InvalidProtocolDescriptor
      else if keyID = [] then Inl InvalidKeyID
      else Inr (invoiceToken E (securityLevel protocol) (protocolName protocol) keyID))"

text \<open>
  Modelled from the spec: \<open>deriveBranchScalar\<close> (\<open>_branch_scalar\<close> of the listing, not in
  the repository) rejects the identity point with \<open>InvalidReferencePoint\<close>, reduces the
  HMAC modulo the group order, and fails with \<open>DegenerateScalar\<close> if the result is zero.
\<close>

definition deriveBranchScalar :: "'p Env \<Rightarrow> string \<Rightarrow> 'p \<Rightarrow> error + int" where
  "deriveBranchScalar E invoiceNumber referencePoint =
     (if referencePoint = identityPoint E then Inl InvalidReferencePoint
      else let s = hmac E referencePoint invoiceNumber mod CURVE_ORDER E
           in if s = 0 then Inl DegenerateScalar else Inr s)"

text \<open>
  Modelled from the spec: \<open>counterparty.to_public_key(root_public_key)\<close> resolves the
  reference point of a counterparty: the root's own point for \<open>Self\<close>, the fixed point
  for \<open>Anyone\<close>, the carried point for \<open>OtherParty\<close>.
\<close>

definition to_public_key :: "'p Env \<Rightarrow> 'p Counterparty \<Rightarrow> 'p \<Rightarrow> 'p" where
  "to_public_key E counterparty root_public_key =
     (case counterparty of
        Self \<Rightarrow> root_public_key
      | Anyone \<Rightarrow> anyonePoint E
      | OtherParty Q \<Rightarrow> Q)"

subsection \<open>The key deriver\<close>

text \<open>
  Modelled from the spec: \<open>KeyDeriver.derivePrivateKey\<close> is SDK code that the harness
  calls and the repository does not contain. It is invalid for \<open>Self\<close>; otherwise it
  resolves the reference point, computes the branch scalar and returns
  \<open>(root.privateScalar + branchScalar) mod n\<close>; a failure of the branch scalar deriver
  is reported as \<open>DerivationFailed\<close>.
\<close>

definition derivePrivateKey ::
  "'p Env \<Rightarrow> 'p RootIdentity \<Rightarrow> Protocol \<Rightarrow> string \<Rightarrow> 'p Counterparty \<Rightarrow> error + int" where
  "derivePrivateKey E root protocol keyID counterparty =
     (case counterparty of
        Self \<Rightarrow> Inl InvalidCounterpartyForPrivateDerivation
      | _ \<Rightarrow>
        (case buildInvoiceNumber E protocol keyID of
           Inl e \<Rightarrow> Inl e
         | Inr invoiceNumber \<Rightarrow>
           (case deriveBranchScalar E invoiceNumber
                   (to_public_key E counterparty (publicPoint root)) of
              Inl e \<Rightarrow> Inl (DerivationFailed e)
            | Inr branchScalar \<Rightarrow>
                Inr ((privateScalar root + branchScalar) mod CURVE_ORDER E))))"

text \<open>
  \<open>derivePublicKey\<close> follows the listing "Fixed Code (CORRECT)" of
  KEY_DERIVATION_BUG_REPORT.md, which the report states to be the behaviour of the
  TypeScript and Go SDKs: with \<open>for_self\<close> the private key is derived first and its public
  key returned; otherwise the counterparty's point is offset by \<open>delta\<cdot>G\<close>. An exception
  of \<open>compute_invoice_number\<close> or \<open>_branch_scalar\<close> propagates.
\<close>

definition derivePublicKey ::
  "'p Env \<Rightarrow> 'p RootIdentity \<Rightarrow> Protocol \<Rightarrow> string \<Rightarrow> 'p Counterparty \<Rightarrow> bool
     \<Rightarrow> error + 'p" where
  "derivePublicKey E root protocol key_id counterparty for_self =
     (case buildInvoiceNumber E protocol key_id of
        Inl e \<Rightarrow> Inl e
      | Inr invoice_number \<Rightarrow>
        if for_self then
          (let cp_pub = to_public_key E counterparty (publicPoint root)
           in case deriveBranchScalar E invoice_number cp_pub of
                Inl e \<Rightarrow> Inl e
              | Inr delta \<Rightarrow>
                  (let derived_priv = (privateScalar root + delta) mod CURVE_ORDER E
                   in Inr (publicKeyOf E derived_priv)))
        else
          (let cp_pub = to_public_key E counterparty (publicPoint root)
           in case deriveBranchScalar E invoice_number cp_pub of
                Inl e \<Rightarrow> Inl e
              | Inr delta \<Rightarrow>
                  (let delta_point = curve_multiply E delta (curve_g E);
                       new_point = curve_add E cp_pub delta_point
                   in Inr new_point)))"

text \<open>
  The listing "Current Code (WRONG)" of the same report, the Python SDK before the fix:
  with \<open>for_self\<close> the branch scalar is keyed on the root's own public point and added
  to it.
\<close>

definition derive_public_key_current ::
  "'p Env \<Rightarrow> 'p RootIdentity \<Rightarrow> Protocol \<Rightarrow> string \<Rightarrow> 'p Counterparty \<Rightarrow> bool
     \<Rightarrow> error + 'p" where
  "derive_public_key_current E root protocol key_id counterparty for_self =
     (case buildInvoiceNumber E protocol key_id of
        Inl e \<Rightarrow> Inl e
      | Inr invoice_number \<Rightarrow>
        (let cp_pub = (if \<not> for_self then to_public_key E counterparty (publicPoint root)
                       else publicPoint root)
         in case deriveBranchScalar E invoice_number cp_pub of
              Inl e \<Rightarrow> Inl e
            | Inr delta \<Rightarrow>
                if for_self then
                  (let delta_point = curve_multiply E delta (curve_g E);
                       new_point = curve_add E (publicPoint root) delta_point
                   in Inr new_point)
                else
                  (let delta_point = curve_multiply E delta (curve_g E);
                       new_point = curve_add E cp_pub delta_point
                   in Inr new_point)))"

subsection \<open>The comparison harness (test_key_derivation.ts, test_key_derivation.go)\<close>

record KeyDerivationResult =
  privateKeyHex :: string
  publicKeyForSelfHex :: string
  publicKeyNotForSelfHex :: string
  publicKeyFromPrivateHex :: string

text \<open>\<open>new KeyDeriver(rootKey)\<close>: the root identity of a private key.\<close>

definition KeyDeriver :: "'p Env \<Rightarrow> int \<Rightarrow> 'p RootIdentity" where
  "KeyDeriver E rootKey = \<lparr>privateScalar = rootKey, publicPoint = publicKeyOf E rootKey\<rparr>"

text \<open>
  \<open>deriveKeysTypeScript\<close> derives the private key and both public keys for the fixed
  root key; its parameter \<open>forSelf\<close> is not used. An exception of the key deriver
  propagates.
\<close>

definition deriveKeysTypeScript ::
  "'p Env \<Rightarrow> 'p Codecs \<Rightarrow> nat \<times> string \<Rightarrow> string \<Rightarrow> string \<Rightarrow> bool
     \<Rightarrow> error + KeyDerivationResult" where
  "deriveKeysTypeScript E C protocolID keyID counterpartyHex forSelf =
     (let rootKey = fromWif C TEST_PRIVATE_KEY_WIF;
          keyDeriver = KeyDeriver E rootKey;
          counterpartyPub = fromString C counterpartyHex;
          protocol = \<lparr>securityLevel = fst protocolID, protocolName = snd protocolID\<rparr>
      in case derivePrivateKey E keyDeriver protocol keyID (OtherParty counterpartyPub) of
           Inl e \<Rightarrow> Inl e
         | Inr derivedPriv \<Rightarrow>
           (case derivePublicKey E keyDeriver protocol keyID (OtherParty counterpartyPub) True of
              Inl e \<Rightarrow> Inl e
            | Inr derivedPubForSelf \<Rightarrow>
              (case derivePublicKey E keyDeriver protocol keyID (OtherParty counterpartyPub) False of
                 Inl e \<Rightarrow> Inl e
               | Inr derivedPubNotForSelf \<Rightarrow>
                   Inr \<lparr>privateKeyHex = toHex C derivedPriv,
                        publicKeyForSelfHex = toString C derivedPubForSelf,
                        publicKeyNotForSelfHex = toString C derivedPubNotForSelf,
                        publicKeyFromPrivateHex = toString C (publicKeyOf E derivedPriv)\<rparr>)))"

text \<open>
  The outputs KEY_DERIVATION_BUG_REPORT.md records for the fixed test root key, protocol,
  key identifier and counterparty, per SDK.
\<close>

definition typescriptResults :: KeyDerivationResult where
  "typescriptResults =
     \<lparr>privateKeyHex = ''26bbbb010eab5d1ae2666c851c145dcb45f5e926d63a8e81a153d2b6ed8ab2fc'',
      publicKeyForSelfHex = ''024467ed1ba7c9d46ad972fe31c090be264e8892c8d12dcb5441d7c0c307ad99dc'',
      publicKeyNotForSelfHex = ''02528a60dee9a4124298e5db896185abf248962487d1da43bf414f7e9948fa6ab3'',
      publicKeyFromPrivateHex = ''024467ed1ba7c9d46ad972fe31c090be264e8892c8d12dcb5441d7c0c307ad99dc''\<rparr>"

definition goResults :: KeyDerivationResult where
  "goResults =
     \<lparr>privateKeyHex = ''26bbbb010eab5d1ae2666c851c145dcb45f5e926d63a8e81a153d2b6ed8ab2fc'',
      publicKeyForSelfHex = ''024467ed1ba7c9d46ad972fe31c090be264e8892c8d12dcb5441d7c0c307ad99dc'',
      publicKeyNotForSelfHex = ''02528a60dee9a4124298e5db896185abf248962487d1da43bf414f7e9948fa6ab3'',
      publicKeyFromPrivateHex = ''024467ed1ba7c9d46ad972fe31c090be264e8892c8d12dcb5441d7c0c307ad99dc''\<rparr>"

definition pythonResults :: KeyDerivationResult where
  "pythonResults =
     \<lparr>privateKeyHex = ''26bbbb010eab5d1ae2666c851c145dcb45f5e926d63a8e81a153d2b6ed8ab2fc'',
      publicKeyForSelfHex = ''02e0a7c5cde04b4404e7036b1c564a6b26bcc5f00802622c24864ad883a8efbccb'',
      publicKeyNotForSelfHex = ''02528a60dee9a4124298e5db896185abf248962487d1da43bf414f7e9948fa6ab3'',
      publicKeyFromPrivateHex = ''024467ed1ba7c9d46ad972fe31c090be264e8892c8d12dcb5441d7c0c307ad99dc''\<rparr>"

subsection \<open>Auxiliary notions\<close>

text \<open>The value of a successful call, \<open>None\<close> for a failed one.\<close>

definition ok :: "'e + 'a \<Rightarrow> 'a option" where
  "ok r = (case r of Inl e \<Rightarrow> None | Inr v \<Rightarrow> Some v)"

text \<open>
  The inputs on which the derivation of the spec does not fail: a protocol name that is
  neither empty nor longer than the maximum, a key identifier that is not empty, a reference
  point that is not the identity point, and an HMAC that does not reduce to zero.
\<close>

definition validDerivationInput ::
  "'p Env \<Rightarrow> 'p RootIdentity \<Rightarrow> Protocol \<Rightarrow> string \<Rightarrow> 'p Counterparty \<Rightarrow> bool" where
  "validDerivationInput E root protocol keyID counterparty \<longleftrightarrow>
     protocolName protocol \<noteq> []
     \<and> length (protocolName protocol) \<le> maxProtocolNameLength E
     \<and> keyID \<noteq> []
     \<and> to_public_key E counterparty (publicPoint root) \<noteq> identityPoint E
     \<and> hmac E (to_public_key E counterparty (publicPoint root))
           (invoiceToken E (securityLevel protocol) (protocolName protocol) keyID)
         mod CURVE_ORDER E \<noteq> 0"

text \<open>
  What the derivation needs of the curve library: the generator has the order
  \<open>CURVE_ORDER\<close>, so scalar multiplication of the generator turns addition modulo the
  order into point addition, and point addition cancels.
\<close>

definition curve_laws :: "'p Env \<Rightarrow> bool" where
  "curve_laws E \<longleftrightarrow>
     (\<forall>a b. curve_multiply E ((a + b) mod CURVE_ORDER E) (curve_g E) =
        curve_add E (curve_multiply E a (curve_g E)) (curve_multiply E b (curve_g E)))
     \<and> (\<forall>p q r. curve_add E p r = curve_add E q r \<longrightarrow> p = q)"

text \<open>
  A small instance of the parameters, on which the definitions are evaluated: the cyclic
  group of order 16 (four-bit words under addition) with generator 1.
\<close>

definition exampleEnv :: "(4 word) Env" where
  "exampleEnv =
     \<lparr>curve_g = 1,
      curve_add = (\<lambda>p q. p + q),
      curve_multiply = (\<lambda>k p. word_of_int k * p),
      CURVE_ORDER = 16,
      identityPoint = 0,
      anyonePoint = 1,
      hmac = (\<lambda>p s. 3 * uint p + int (length s)),
      invoiceToken = (\<lambda>l name keyID. name @ ''-'' @ keyID),
      maxProtocolNameLength = 400\<rparr>"

definition exampleCodecs :: "(4 word) Codecs" where
  "exampleCodecs =
     \<lparr>fromWif = (\<lambda>s. int (length s)),
      fromString = (\<lambda>s. word_of_nat (length s)),
      toHex = (\<lambda>d. replicate (nat d) (CHR ''1'')),
      toString = (\<lambda>p. replicate (unat p) (CHR ''1''))\<rparr>"

definition exampleRoot :: "(4 word) RootIdentity" where
  "exampleRoot = KeyDeriver exampleEnv 5"

definition exampleProtocol :: Protocol where
  "exampleProtocol = \<lparr>securityLevel = 2, protocolName = ''auth message signature''\<rparr>"


section \<open>Key identifiers\<close>

lemma split_at_sep:
  assumes "x \<notin> set a"
  shows "takeWhile (\<lambda>y. y \<noteq> x) (a @ x # b) = a"
    and "dropWhile (\<lambda>y. y \<noteq> x) (a @ x # b) = x # b"
  using assms by (induction a) auto

text \<open>
  C4. For every pair of nonce strings the key identifier is the initial nonce, one space
  character and the session nonce, in that order; for the fixed test nonces it is the
  literal string of the two Base64 texts joined by one space.
\<close>

theorem makeKeyId_format:
  "makeKeyId initialNonce sessionNonce = initialNonce @ [CHR '' ''] @ sessionNonce
   \<and> makeKeyId INITIAL_NONCE_B64 SESSION_NONCE_B64 =
       ''QUFBQUFBQUFBQUFBQUFBQUFBQUFBQUFBQUFBQUFBQUE= QkJCQkJCQkJCQkJCQkJCQkJCQkJCQkJCQkJCQkJCQkI=''"
  by (simp add: makeKeyId_def INITIAL_NONCE_B64_def SESSION_NONCE_B64_def)

text \<open>
  C10. On strings without a space character \<open>makeKeyId\<close> is injective: two key
  identifiers are equal exactly when both nonces are. The key identifier holds exactly one
  space, and splitting it at that space gives the two nonces back.
\<close>

theorem makeKeyId_injective:
  assumes "CHR '' '' \<notin> set a" and "CHR '' '' \<notin> set b"
    and "CHR '' '' \<notin> set c" and "CHR '' '' \<notin> set d"
  shows "(makeKeyId a b = makeKeyId c d) = (a = c \<and> b = d)
    \<and> count_list (makeKeyId a b) (CHR '' '') = 1
    \<and> takeWhile (\<lambda>x. x \<noteq> CHR '' '') (makeKeyId a b) = a
    \<and> tl (dropWhile (\<lambda>x. x \<noteq> CHR '' '') (makeKeyId a b)) = b"
proof -
  have fst: "takeWhile (\<lambda>x. x \<noteq> CHR '' '') (makeKeyId a b) = a"
    using split_at_sep(1) [OF assms(1)] by (simp add: makeKeyId_def)
  have snd: "tl (dropWhile (\<lambda>x. x \<noteq> CHR '' '') (makeKeyId a b)) = b"
    using split_at_sep(2) [OF assms(1)] by (simp add: makeKeyId_def)
  have fst': "takeWhile (\<lambda>x. x \<noteq> CHR '' '') (makeKeyId c d) = c"
    using split_at_sep(1) [OF assms(3)] by (simp add: makeKeyId_def)
  have snd': "tl (dropWhile (\<lambda>x. x \<noteq> CHR '' '') (makeKeyId c d)) = d"
    using split_at_sep(2) [OF assms(3)] by (simp add: makeKeyId_def)
  have inj: "(makeKeyId a b = makeKeyId c d) = (a = c \<and> b = d)"
    using fst snd fst' snd' by metis
  have cnt: "count_list (makeKeyId a b) (CHR '' '') = 1"
    using assms(1) assms(2) by (simp add: makeKeyId_def count_list_0_iff)
  from inj cnt fst snd show ?thesis by blast
qed

theorem makeKeyId_injective_witness:
  "CHR '' '' \<notin> set ''QUFB'' \<and> CHR '' '' \<notin> set ''QkJC''
   \<and> makeKeyId ''QUFB'' ''QkJC'' \<noteq> makeKeyId ''QkJC'' ''QUFB''
   \<and> count_list (makeKeyId ''QUFB'' ''QkJC'') (CHR '' '') = 1
   \<and> takeWhile (\<lambda>x. x \<noteq> CHR '' '') (makeKeyId ''QUFB'' ''QkJC'') = ''QUFB''
   \<and> tl (dropWhile (\<lambda>x. x \<noteq> CHR '' '') (makeKeyId ''QUFB'' ''QkJC'')) = ''QkJC''"
  using makeKeyId_injective [of "''QUFB''" "''QkJC''" "''QkJC''" "''QUFB''"] by simp


section \<open>Properties of the decoder\<close>

text \<open>Every decoded element is a byte.\<close>

lemma unbase64_bound: "unbase64 c = Some v \<Longrightarrow> v < 64"
  unfolding unbase64_def Let_def by (simp split: if_splits)

lemma sextets_bound: "v \<in> set (sextets s) \<Longrightarrow> v < 64"
  by (induction s) (auto split: if_splits option.splits dest: unbase64_bound)

lemma byte_of_sextets:
  fixes a b c d :: nat
  assumes "a < 64" and "b < 64" and "c < 64" and "d < 64"
  shows "a * 4 + b div 16 < 256" and "(b mod 16) * 16 + c div 4 < 256"
    and "(c mod 4) * 64 + d < 256"
proof -
  have "b div 16 < 4" "c div 4 < 16" "b mod 16 < 16" "c mod 4 < 4"
    using assms by (simp_all add: div_less_iff_less_mult)
  then show "a * 4 + b div 16 < 256" "(b mod 16) * 16 + c div 4 < 256"
    "(c mod 4) * 64 + d < 256"
    using assms by linarith+
qed

lemma sextets_to_bytes_bound:
  "\<forall>v \<in> set vs. v < 64 \<Longrightarrow> \<forall>b \<in> set (sextets_to_bytes vs). b < 256"
  by (induction vs rule: sextets_to_bytes.induct) (auto intro: byte_of_sextets)

lemma Buffer_from_base64_bytes: "b \<in> set (Buffer_from_base64 data) \<Longrightarrow> b < 256"
  unfolding Buffer_from_base64_def
  using sextets_to_bytes_bound [of "sextets data"] sextets_bound [of _ data] by blast

text \<open>The decoder inverts the standard encoder on every byte sequence.\<close>

lemma base64_fixed_nonces:
  "base64 INITIAL_NONCE_BYTES = INITIAL_NONCE_B64"
  "base64 SESSION_NONCE_BYTES = SESSION_NONCE_B64"
  by code_simp+

lemma unbase64_base64_char: "v < 64 \<Longrightarrow> unbase64 (base64_char v) = Some v"
  by (auto simp: unbase64_def base64_char_def Let_def)

lemma base64_char_not_padding: "v < 64 \<Longrightarrow> base64_char v \<noteq> CHR ''=''"
proof
  assume "v < 64" and "base64_char v = CHR ''=''"
  then have "unbase64 (CHR ''='') = Some v"
    using unbase64_base64_char by metis
  then show False
    by (simp add: unbase64_def)
qed

lemma sextets_base64_char:
  "v < 64 \<Longrightarrow> sextets (base64_char v # cs) = v # sextets cs"
  by (simp add: unbase64_base64_char base64_char_not_padding)

lemma sextets_padding: "sextets (CHR ''='' # cs) = []"
  by simp

lemma byte_div_bounds:
  fixes x :: nat
  assumes "x < 256"
  shows "x div 4 < 64" and "x div 16 < 16" and "x div 64 < 4"
  using assms by (simp_all add: div_less_iff_less_mult)

lemma sextet_bounds:
  fixes x y z :: nat
  assumes "x < 256" and "y < 256" and "z < 256"
  shows "x div 4 < 64" and "(x mod 4) * 16 + y div 16 < 64"
    and "(y mod 16) * 4 + z div 64 < 64" and "z mod 64 < 64"
    and "(y mod 16) * 4 < 64" and "(x mod 4) * 16 < 64"
proof -
  have m: "x mod 4 < 4" "y mod 16 < 16" by simp_all
  show "x div 4 < 64" using byte_div_bounds [OF assms(1)] by simp
  show "(x mod 4) * 16 + y div 16 < 64" using m byte_div_bounds [OF assms(2)] by linarith
  show "(y mod 16) * 4 + z div 64 < 64" using m byte_div_bounds [OF assms(3)] by linarith
  show "z mod 64 < 64" by simp
  show "(y mod 16) * 4 < 64" using m by linarith
  show "(x mod 4) * 16 < 64" using m by linarith
qed

lemma regroup_first:
  fixes x y :: nat
  assumes "y < 256"
  shows "(x div 4) * 4 + ((x mod 4) * 16 + y div 16) div 16 = x"
proof -
  have "y div 16 < 16" using byte_div_bounds [OF assms] by simp
  then have "((x mod 4) * 16 + y div 16) div 16 = x mod 4"
    by simp
  then show ?thesis by simp
qed

lemma regroup_second:
  fixes x y z :: nat
  assumes "y < 256" and "z < 256"
  shows "(((x mod 4) * 16 + y div 16) mod 16) * 16 + ((y mod 16) * 4 + z div 64) div 4 = y"
proof -
  have a: "y div 16 < 16" "z div 64 < 4"
    using byte_div_bounds [OF assms(1)] byte_div_bounds [OF assms(2)] by simp_all
  then have "((x mod 4) * 16 + y div 16) mod 16 = y div 16"
    by simp
  moreover have "((y mod 16) * 4 + z div 64) div 4 = y mod 16"
    using a by simp
  ultimately show ?thesis by simp
qed

lemma regroup_third:
  fixes y z :: nat
  assumes "z < 256"
  shows "(((y mod 16) * 4 + z div 64) mod 4) * 64 + z mod 64 = z"
proof -
  have a: "z div 64 < 4" using byte_div_bounds [OF assms] by simp
  then have "((y mod 16) * 4 + z div 64) mod 4 = z div 64"
    by simp
  then show ?thesis by simp
qed

lemma Buffer_from_base64_base64:
  "\<forall>b \<in> set bs. b < 256 \<Longrightarrow> Buffer_from_base64 (base64 bs) = bs"
  unfolding Buffer_from_base64_def
proof (induction bs rule: base64.induct)
  case (1 x y z rest)
  then have b: "x < 256" "y < 256" "z < 256" and r: "\<forall>b \<in> set rest. b < 256"
    by simp_all
  have "sextets (base64 (x # y # z # rest)) =
          x div 4 # ((x mod 4) * 16 + y div 16) # ((y mod 16) * 4 + z div 64) # z mod 64
            # sextets (base64 rest)"
    using sextet_bounds(1-4) [OF b]
    by (simp add: sextets_base64_char sextets_padding
        del: sextets.simps)
  then show ?case
    using "1.IH" [OF r] regroup_first [OF b(2), of x] regroup_second [OF b(2) b(3), of x]
      regroup_third [OF b(3), of y]
    by simp
next
  case (2 x y)
  then have b: "x < 256" "y < 256" "(0::nat) < 256"
    by simp_all
  have "sextets (base64 [x, y]) = [x div 4, (x mod 4) * 16 + y div 16, (y mod 16) * 4]"
    using sextet_bounds(1,2,5) [OF b]
    by (simp add: sextets_base64_char sextets_padding
        del: sextets.simps)
  then show ?case
    using regroup_first [OF b(2), of x] regroup_second [OF b(2) b(3), of x]
    by simp
next
  case (3 x)
  then have b: "x < 256" "(0::nat) < 256" "(0::nat) < 256"
    by simp_all
  have "sextets (base64 [x]) = [x div 4, (x mod 4) * 16]"
    using sextet_bounds(1,6) [OF b]
    by (simp add: sextets_base64_char sextets_padding
        del: sextets.simps)
  then show ?case
    using regroup_first [OF b(2), of x]
    by simp
next
  case 4
  then show ?case by simp
qed

text \<open>The fixed nonces and their concatenation.\<close>

lemma decode_INITIAL_NONCE_B64: "Buffer_from_base64 INITIAL_NONCE_B64 = INITIAL_NONCE_BYTES"
  by (simp add: Buffer_from_base64_def INITIAL_NONCE_B64_def INITIAL_NONCE_BYTES_def unbase64_def)

lemma decode_SESSION_NONCE_B64: "Buffer_from_base64 SESSION_NONCE_B64 = SESSION_NONCE_BYTES"
  by (simp add: Buffer_from_base64_def SESSION_NONCE_B64_def SESSION_NONCE_BYTES_def unbase64_def)

lemma sextets_stop_at_padding: "sextets (a @ CHR ''='' # b) = sextets a"
  by (induction a) (simp_all split: option.splits)

lemma decode_concatenated_nonces:
  "Buffer_from_base64 (INITIAL_NONCE_B64 @ SESSION_NONCE_B64) = INITIAL_NONCE_BYTES"
  by (simp add: Buffer_from_base64_def INITIAL_NONCE_B64_def SESSION_NONCE_B64_def
      INITIAL_NONCE_BYTES_def unbase64_def)

text \<open>
  C9. The shared constants agree: the Base64 text \<open>INITIAL_NONCE_B64\<close> decodes to
  \<open>INITIAL_NONCE_BYTES\<close>, 32 bytes 0x41 (65); \<open>SESSION_NONCE_B64\<close> decodes to
  \<open>SESSION_NONCE_BYTES\<close>, 32 bytes 0x42 (66); the expected signing data is the initial
  nonce bytes followed by the session nonce bytes, and the expected verification data is the
  session nonce bytes followed by the initial nonce bytes.
\<close>

theorem constants_consistent:
  "Buffer_from_base64 INITIAL_NONCE_B64 = INITIAL_NONCE_BYTES
   \<and> INITIAL_NONCE_BYTES = replicate 32 65
   \<and> Buffer_from_base64 SESSION_NONCE_B64 = SESSION_NONCE_BYTES
   \<and> SESSION_NONCE_BYTES = replicate 32 66
   \<and> EXPECTED_SIG_DATA_SIGNING = INITIAL_NONCE_BYTES @ SESSION_NONCE_BYTES
   \<and> EXPECTED_SIG_DATA_VERIFICATION = SESSION_NONCE_BYTES @ INITIAL_NONCE_BYTES"
proof -
  have a: "INITIAL_NONCE_BYTES = replicate 32 65"
    by (simp add: INITIAL_NONCE_BYTES_def numeral_eq_Suc)
  have b: "SESSION_NONCE_BYTES = replicate 32 66"
    by (simp add: SESSION_NONCE_BYTES_def numeral_eq_Suc)
  have s: "EXPECTED_SIG_DATA_SIGNING = INITIAL_NONCE_BYTES @ SESSION_NONCE_BYTES"
    by (simp add: EXPECTED_SIG_DATA_SIGNING_def INITIAL_NONCE_BYTES_def SESSION_NONCE_BYTES_def)
  have v: "EXPECTED_SIG_DATA_VERIFICATION = SESSION_NONCE_BYTES @ INITIAL_NONCE_BYTES"
    by (simp add: EXPECTED_SIG_DATA_VERIFICATION_def INITIAL_NONCE_BYTES_def
        SESSION_NONCE_BYTES_def)
  from decode_INITIAL_NONCE_B64 a decode_SESSION_NONCE_B64 b s v show ?thesis
    by blast
qed

section \<open>Handshake nonce assembly\<close>

text \<open>
  C2. On Node, for nonce strings that each decode to 32 bytes, the signing data
  \<open>correctSignatureDataPrep(initialNonce, sessionNonce)\<close> is the 64-byte sequence of the
  decoded initial nonce followed by the decoded session nonce, and the verification data
  \<open>correctSignatureDataPrep(sessionNonce, initialNonce)\<close> is the 64-byte sequence in the
  reverse order. For the fixed test nonces they are \<open>EXPECTED_SIG_DATA_SIGNING\<close> and
  \<open>EXPECTED_SIG_DATA_VERIFICATION\<close>.
\<close>

theorem nonce_assembly:
  assumes "length (Buffer_from_base64 initialNonce) = 32"
    and "length (Buffer_from_base64 sessionNonce) = 32"
  shows "correctSignatureDataPrep node_Buffer initialNonce sessionNonce
           = Buffer_from_base64 initialNonce @ Buffer_from_base64 sessionNonce
    \<and> length (correctSignatureDataPrep node_Buffer initialNonce sessionNonce) = 64
    \<and> correctSignatureDataPrep node_Buffer sessionNonce initialNonce
           = Buffer_from_base64 sessionNonce @ Buffer_from_base64 initialNonce
    \<and> length (correctSignatureDataPrep node_Buffer sessionNonce initialNonce) = 64
    \<and> correctSignatureDataPrep node_Buffer INITIAL_NONCE_B64 SESSION_NONCE_B64
           = EXPECTED_SIG_DATA_SIGNING
    \<and> correctSignatureDataPrep node_Buffer SESSION_NONCE_B64 INITIAL_NONCE_B64
           = EXPECTED_SIG_DATA_VERIFICATION"
proof -
  have prep: "correctSignatureDataPrep node_Buffer n1 n2
                = Buffer_from_base64 n1 @ Buffer_from_base64 n2" for n1 n2
    by (simp add: correctSignatureDataPrep_def node_Buffer_def)
  have s: "Buffer_from_base64 INITIAL_NONCE_B64 @ Buffer_from_base64 SESSION_NONCE_B64
             = EXPECTED_SIG_DATA_SIGNING"
    by (simp add: decode_INITIAL_NONCE_B64 decode_SESSION_NONCE_B64
        EXPECTED_SIG_DATA_SIGNING_def INITIAL_NONCE_BYTES_def SESSION_NONCE_BYTES_def)
  have v: "Buffer_from_base64 SESSION_NONCE_B64 @ Buffer_from_base64 INITIAL_NONCE_B64
             = EXPECTED_SIG_DATA_VERIFICATION"
    by (simp add: decode_INITIAL_NONCE_B64 decode_SESSION_NONCE_B64
        EXPECTED_SIG_DATA_VERIFICATION_def INITIAL_NONCE_BYTES_def SESSION_NONCE_BYTES_def)
  from assms s v show ?thesis
    by (simp add: prep)
qed

text \<open>
  The fixed test nonces satisfy the hypotheses of C2, and the assembled data are 32 bytes 65
  then 32 bytes 66, and the reverse.
\<close>

theorem nonce_assembly_witness:
  "length (Buffer_from_base64 INITIAL_NONCE_B64) = 32
   \<and> length (Buffer_from_base64 SESSION_NONCE_B64) = 32
   \<and> correctSignatureDataPrep node_Buffer INITIAL_NONCE_B64 SESSION_NONCE_B64
        = replicate 32 65 @ replicate 32 66
   \<and> length (correctSignatureDataPrep node_Buffer INITIAL_NONCE_B64 SESSION_NONCE_B64) = 64
   \<and> correctSignatureDataPrep node_Buffer SESSION_NONCE_B64 INITIAL_NONCE_B64
        = replicate 32 66 @ replicate 32 65"
proof -
  have a: "Buffer_from_base64 INITIAL_NONCE_B64 = replicate 32 65"
    by (simp add: decode_INITIAL_NONCE_B64 INITIAL_NONCE_BYTES_def numeral_eq_Suc)
  have b: "Buffer_from_base64 SESSION_NONCE_B64 = replicate 32 66"
    by (simp add: decode_SESSION_NONCE_B64 SESSION_NONCE_BYTES_def numeral_eq_Suc)
  have la: "length (Buffer_from_base64 INITIAL_NONCE_B64) = 32"
    by (simp add: a)
  have lb: "length (Buffer_from_base64 SESSION_NONCE_B64) = 32"
    by (simp add: b)
  show ?thesis
    using nonce_assembly [OF la lb] a b by simp
qed

text \<open>
  In particular, for every two nonces (byte sequences) the helper applied to their Base64
  encodings returns the raw bytes of the first followed by the raw bytes of the second.
\<close>

lemma nonce_assembly_of_encoded:
  assumes "\<forall>b \<in> set initial. b < 256" and "\<forall>b \<in> set session. b < 256"
  shows "correctSignatureDataPrep node_Buffer (base64 initial) (base64 session)
           = initial @ session"
    and "correctSignatureDataPrep node_Buffer (base64 session) (base64 initial)
           = session @ initial"
  using assms
  by (simp_all add: correctSignatureDataPrep_def node_Buffer_def Buffer_from_base64_base64)

text \<open>
  C3. Base64 decoding does not commute with concatenation: for the fixed test pair, decoding
  the concatenated Base64 texts once (the historical defect, \<open>buggyBase64ToBytes\<close> of the
  concatenation) gives 32 bytes, decoding each text and concatenating gives 64 bytes, and
  the two results differ.
\<close>

theorem base64_not_concatenation_homomorphic:
  "buggyBase64ToBytes node_Buffer (INITIAL_NONCE_B64 @ SESSION_NONCE_B64)
     \<noteq> correctSignatureDataPrep node_Buffer INITIAL_NONCE_B64 SESSION_NONCE_B64
   \<and> length (buggyBase64ToBytes node_Buffer (INITIAL_NONCE_B64 @ SESSION_NONCE_B64)) = 32
   \<and> length (correctSignatureDataPrep node_Buffer INITIAL_NONCE_B64 SESSION_NONCE_B64) = 64
   \<and> (\<exists>nonce1 nonce2. Buffer_from_base64 (nonce1 @ nonce2)
          \<noteq> Buffer_from_base64 nonce1 @ Buffer_from_base64 nonce2)"
proof -
  have buggy: "buggyBase64ToBytes node_Buffer (INITIAL_NONCE_B64 @ SESSION_NONCE_B64)
                 = INITIAL_NONCE_BYTES"
    by (simp add: buggyBase64ToBytes_def node_Buffer_def decode_concatenated_nonces)
  have correct: "correctSignatureDataPrep node_Buffer INITIAL_NONCE_B64 SESSION_NONCE_B64
                   = INITIAL_NONCE_BYTES @ SESSION_NONCE_BYTES"
    by (simp add: correctSignatureDataPrep_def node_Buffer_def decode_INITIAL_NONCE_B64
        decode_SESSION_NONCE_B64)
  have l1: "length INITIAL_NONCE_BYTES = 32"
    by (simp add: INITIAL_NONCE_BYTES_def)
  have l2: "length SESSION_NONCE_BYTES = 32"
    by (simp add: SESSION_NONCE_BYTES_def)
  have differ: "INITIAL_NONCE_BYTES \<noteq> INITIAL_NONCE_BYTES @ SESSION_NONCE_BYTES"
    using l2 by auto
  have "Buffer_from_base64 (INITIAL_NONCE_B64 @ SESSION_NONCE_B64)
          \<noteq> Buffer_from_base64 INITIAL_NONCE_B64 @ Buffer_from_base64 SESSION_NONCE_B64"
    using differ
    by (simp add: decode_concatenated_nonces decode_INITIAL_NONCE_B64 decode_SESSION_NONCE_B64)
  then have ex: "\<exists>nonce1 nonce2. Buffer_from_base64 (nonce1 @ nonce2)
          \<noteq> Buffer_from_base64 nonce1 @ Buffer_from_base64 nonce2"
    by blast
  from buggy correct l1 l2 differ ex show ?thesis
    by simp
qed

section \<open>Key derivation on the example instance\<close>

lemma word4_of_int_add_mod:
  "(word_of_int ((a + b) mod 16) :: 4 word) = word_of_int a + word_of_int b"
proof -
  have "(word_of_int ((a + b) mod 16) :: 4 word) = word_of_int (a + b)"
    unfolding word_of_int_eq_iff by (simp add: take_bit_eq_mod)
  also have "\<dots> = word_of_int a + word_of_int b"
    by simp
  finally show ?thesis .
qed

lemma exampleEnv_laws: "curve_laws exampleEnv"
  by (simp add: curve_laws_def exampleEnv_def word4_of_int_add_mod)

lemma exampleRoot_public:
  "publicPoint exampleRoot = publicKeyOf exampleEnv (privateScalar exampleRoot)"
  by (simp add: exampleRoot_def KeyDeriver_def)

lemma example_invoice:
  "buildInvoiceNumber exampleEnv exampleProtocol ''k1'' = Inr ''auth message signature-k1''"
  by (simp add: buildInvoiceNumber_def exampleEnv_def exampleProtocol_def)

lemma example_branch:
  "deriveBranchScalar exampleEnv ''auth message signature-k1'' 3 = Inr 2"
  by (simp add: deriveBranchScalar_def exampleEnv_def)

lemma example_private:
  "derivePrivateKey exampleEnv exampleRoot exampleProtocol ''k1'' (OtherParty 3) = Inr 7"
  by (simp add: derivePrivateKey_def buildInvoiceNumber_def deriveBranchScalar_def
      to_public_key_def exampleEnv_def exampleRoot_def exampleProtocol_def KeyDeriver_def)

lemma example_public_for_self:
  "derivePublicKey exampleEnv exampleRoot exampleProtocol ''k1'' (OtherParty 3) True = Inr 7"
  by (simp add: derivePublicKey_def buildInvoiceNumber_def deriveBranchScalar_def publicKeyOf_def
      to_public_key_def exampleEnv_def exampleRoot_def exampleProtocol_def KeyDeriver_def)

lemma example_public_not_for_self:
  "derivePublicKey exampleEnv exampleRoot exampleProtocol ''k1'' (OtherParty 3) False = Inr 5"
  by (simp add: derivePublicKey_def buildInvoiceNumber_def deriveBranchScalar_def publicKeyOf_def
      to_public_key_def exampleEnv_def exampleRoot_def exampleProtocol_def KeyDeriver_def)

lemma example_current_for_self:
  "derive_public_key_current exampleEnv exampleRoot exampleProtocol ''k1'' (OtherParty 3) True
     = Inr 13"
  by (simp add: derive_public_key_current_def buildInvoiceNumber_def deriveBranchScalar_def
      publicKeyOf_def to_public_key_def exampleEnv_def exampleRoot_def exampleProtocol_def
      KeyDeriver_def)

section \<open>The two modes of public-key derivation\<close>

lemma derivePublicKey_for_self:
  assumes "buildInvoiceNumber E protocol keyID = Inr invoiceNumber"
    and "deriveBranchScalar E invoiceNumber (to_public_key E counterparty (publicPoint root))
           = Inr delta"
  shows "derivePublicKey E root protocol keyID counterparty True =
           Inr (publicKeyOf E ((privateScalar root + delta) mod CURVE_ORDER E))"
  using assms by (simp add: derivePublicKey_def)

lemma derivePublicKey_not_for_self:
  assumes "buildInvoiceNumber E protocol keyID = Inr invoiceNumber"
    and "deriveBranchScalar E invoiceNumber (to_public_key E counterparty (publicPoint root))
           = Inr delta"
  shows "derivePublicKey E root protocol keyID counterparty False =
           Inr (curve_add E (to_public_key E counterparty (publicPoint root))
                  (curve_multiply E delta (curve_g E)))"
  using assms by (simp add: derivePublicKey_def)

lemma derivePublicKey_success:
  assumes "ok (derivePublicKey E root protocol keyID counterparty for_self) \<noteq> None"
  obtains invoiceNumber delta where
    "buildInvoiceNumber E protocol keyID = Inr invoiceNumber"
    "deriveBranchScalar E invoiceNumber (to_public_key E counterparty (publicPoint root))
       = Inr delta"
  using assms
  by (cases for_self) (auto simp: derivePublicKey_def ok_def Let_def split: sum.splits)

text \<open>
  The formula of the spec for \<open>forSelf = true\<close>, \<open>root.publicPoint + branchScalar\<cdot>G\<close>,
  is what the derive-private-then-multiply path computes on a lawful curve.
\<close>

lemma derivePublicKey_for_self_offset:
  assumes "curve_laws E"
    and "publicPoint root = publicKeyOf E (privateScalar root)"
    and "buildInvoiceNumber E protocol keyID = Inr invoiceNumber"
    and "deriveBranchScalar E invoiceNumber (to_public_key E counterparty (publicPoint root))
           = Inr delta"
  shows "derivePublicKey E root protocol keyID counterparty True =
           Inr (curve_add E (publicPoint root) (curve_multiply E delta (curve_g E)))"
proof -
  have "publicKeyOf E ((privateScalar root + delta) mod CURVE_ORDER E) =
          curve_add E (publicKeyOf E (privateScalar root)) (curve_multiply E delta (curve_g E))"
    using assms(1) by (simp add: curve_laws_def publicKeyOf_def)
  with derivePublicKey_for_self [OF assms(3) assms(4)] assms(2) show ?thesis
    by simp
qed

text \<open>
  C5. For a counterparty \<open>OtherParty(Q)\<close>, when the invoice number is built and the
  branch scalar is derived from it and \<open>Q\<close>, \<open>derivePrivateKey\<close> returns the root's
  private scalar plus the branch scalar, modulo the group order; for a positive group order
  the result is a scalar in \<open>[0, n)\<close>.
\<close>

theorem derivePrivateKey_formula:
  assumes "buildInvoiceNumber E protocol keyID = Inr invoiceNumber"
    and "deriveBranchScalar E invoiceNumber Q = Inr branchScalar"
    and "0 < CURVE_ORDER E"
  shows "derivePrivateKey E root protocol keyID (OtherParty Q)
           = Inr ((privateScalar root + branchScalar) mod CURVE_ORDER E)
         \<and> 0 \<le> (privateScalar root + branchScalar) mod CURVE_ORDER E
         \<and> (privateScalar root + branchScalar) mod CURVE_ORDER E < CURVE_ORDER E"
  using assms by (simp add: derivePrivateKey_def to_public_key_def)

text \<open>
  On the example instance: the invoice number and the branch scalar 2 exist, the root scalar
  is 5, the order 16, and the derived private key is 7.
\<close>

theorem derivePrivateKey_formula_witness:
  "buildInvoiceNumber exampleEnv exampleProtocol ''k1'' = Inr ''auth message signature-k1''
   \<and> deriveBranchScalar exampleEnv ''auth message signature-k1'' 3 = Inr 2
   \<and> privateScalar exampleRoot = 5 \<and> CURVE_ORDER exampleEnv = 16
   \<and> derivePrivateKey exampleEnv exampleRoot exampleProtocol ''k1'' (OtherParty 3) = Inr 7"
proof -
  have order: "0 < CURVE_ORDER exampleEnv"
    by (simp add: exampleEnv_def)
  show ?thesis
    using derivePrivateKey_formula [OF example_invoice example_branch order, of exampleRoot]
      example_invoice example_branch
    by (simp add: exampleRoot_def KeyDeriver_def exampleEnv_def)
qed

text \<open>
  C1. For every root identity and counterparty \<open>OtherParty(Q)\<close>,
  \<open>derivePublicKey\<close> with \<open>forSelf = true\<close> succeeds exactly when
  \<open>derivePrivateKey\<close> does, and its result is the derived private scalar multiplied by
  the generator. The harness therefore reports equal strings for "public key for self" and
  "public key from private", as the outputs recorded for the TypeScript and Go SDKs do.
\<close>

theorem self_consistency:
  "ok (derivePublicKey E root protocol keyID (OtherParty Q) True)
     = map_option (publicKeyOf E) (ok (derivePrivateKey E root protocol keyID (OtherParty Q)))
   \<and> map_option publicKeyForSelfHex
        (ok (deriveKeysTypeScript E C protocolID keyID counterpartyHex forSelf))
     = map_option publicKeyFromPrivateHex
        (ok (deriveKeysTypeScript E C protocolID keyID counterpartyHex forSelf))
   \<and> publicKeyForSelfHex typescriptResults = publicKeyFromPrivateHex typescriptResults
   \<and> publicKeyForSelfHex goResults = publicKeyFromPrivateHex goResults"
proof -
  have general: "ok (derivePublicKey E root protocol keyID (OtherParty Q) True)
     = map_option (publicKeyOf E) (ok (derivePrivateKey E root protocol keyID (OtherParty Q)))"
    for root :: "'a RootIdentity" and protocol keyID Q
    by (simp add: derivePublicKey_def derivePrivateKey_def ok_def to_public_key_def
        split: sum.splits)
  have harness: "map_option publicKeyForSelfHex
        (ok (deriveKeysTypeScript E C protocolID keyID counterpartyHex forSelf))
     = map_option publicKeyFromPrivateHex
        (ok (deriveKeysTypeScript E C protocolID keyID counterpartyHex forSelf))"
  proof -
    let ?kd = "KeyDeriver E (fromWif C TEST_PRIVATE_KEY_WIF)"
    let ?p = "\<lparr>securityLevel = fst protocolID, protocolName = snd protocolID\<rparr>"
    let ?Q = "fromString C counterpartyHex"
    show ?thesis
      using general [of ?kd ?p keyID ?Q]
      by (auto simp: deriveKeysTypeScript_def ok_def Let_def split: sum.splits)
  qed
  have recorded: "publicKeyForSelfHex typescriptResults = publicKeyFromPrivateHex typescriptResults
      \<and> publicKeyForSelfHex goResults = publicKeyFromPrivateHex goResults"
    by (simp add: typescriptResults_def goResults_def)
  from general harness recorded show ?thesis by simp
qed

text \<open>
  On the example instance the private key is 7 and the public key for self is its
  multiple of the generator.
\<close>

theorem self_consistency_witness:
  "derivePrivateKey exampleEnv exampleRoot exampleProtocol ''k1'' (OtherParty 3) = Inr 7
   \<and> ok (derivePublicKey exampleEnv exampleRoot exampleProtocol ''k1'' (OtherParty 3) True)
       = Some (publicKeyOf exampleEnv 7)"
  using self_consistency [of exampleEnv exampleRoot exampleProtocol "''k1''" 3]
  by (simp add: example_private ok_def)

text \<open>
  The listing of the Python SDK before its fix does not have this property: on the example
  instance its \<open>for_self\<close> result differs from the public key of the derived private
  key, as the outputs recorded for the Python SDK do.
\<close>

lemma python_current_listing_not_self_consistent:
  "ok (derive_public_key_current exampleEnv exampleRoot exampleProtocol ''k1'' (OtherParty 3) True)
     \<noteq> map_option (publicKeyOf exampleEnv)
          (ok (derivePrivateKey exampleEnv exampleRoot exampleProtocol ''k1'' (OtherParty 3)))
   \<and> publicKeyForSelfHex pythonResults \<noteq> publicKeyFromPrivateHex pythonResults"
  unfolding example_current_for_self example_private
  by (simp add: ok_def publicKeyOf_def exampleEnv_def pythonResults_def)

text \<open>Both modes fail on the same inputs, with the same error.\<close>

lemma derivePublicKey_failure:
  assumes "ok (derivePublicKey E root protocol keyID counterparty True) = None"
  shows "derivePublicKey E root protocol keyID counterparty False
           = derivePublicKey E root protocol keyID counterparty True"
proof (cases "buildInvoiceNumber E protocol keyID")
  case (Inl e)
  then show ?thesis by (simp add: derivePublicKey_def)
next
  case (Inr invoiceNumber)
  note inv = this
  show ?thesis
  proof (cases "deriveBranchScalar E invoiceNumber
                  (to_public_key E counterparty (publicPoint root))")
    case (Inl e)
    with inv show ?thesis by (simp add: derivePublicKey_def)
  next
    case (Inr delta)
    with inv assms show ?thesis by (simp add: derivePublicKey_def ok_def)
  qed
qed

text \<open>
  The two modes coincide in the degenerate configuration in which the counterparty's point
  is the root's own public point.
\<close>

lemma derivePublicKey_modes_coincide:
  assumes "curve_laws E"
    and "publicPoint root = publicKeyOf E (privateScalar root)"
  shows "derivePublicKey E root protocol keyID (OtherParty (publicPoint root)) True
           = derivePublicKey E root protocol keyID (OtherParty (publicPoint root)) False"
proof (cases "ok (derivePublicKey E root protocol keyID (OtherParty (publicPoint root)) True)
                = None")
  case True
  show ?thesis
    using derivePublicKey_failure [OF True] by simp
next
  case False
  obtain invoiceNumber delta where
    inv: "buildInvoiceNumber E protocol keyID = Inr invoiceNumber" and
    br: "deriveBranchScalar E invoiceNumber
           (to_public_key E (OtherParty (publicPoint root)) (publicPoint root)) = Inr delta"
    using derivePublicKey_success [OF False] by blast
  show ?thesis
    using derivePublicKey_for_self_offset [OF assms inv br]
      derivePublicKey_not_for_self [OF inv br]
    by (simp add: to_public_key_def)
qed

text \<open>
  C6. On a lawful curve, for a root identity whose public point belongs to its private
  scalar and a counterparty \<open>OtherParty(Q)\<close> with \<open>Q\<close> different from the root's
  public point, a successful \<open>derivePublicKey\<close> with \<open>forSelf = true\<close> differs from
  the one with \<open>forSelf = false\<close>. The outputs recorded for the fixed test root key and
  counterparty differ as well.
\<close>

theorem directional_distinctness:
  assumes "curve_laws E"
    and "publicPoint root = publicKeyOf E (privateScalar root)"
    and "Q \<noteq> publicPoint root"
    and "ok (derivePublicKey E root protocol keyID (OtherParty Q) True) \<noteq> None"
  shows "derivePublicKey E root protocol keyID (OtherParty Q) True
           \<noteq> derivePublicKey E root protocol keyID (OtherParty Q) False
         \<and> publicKeyForSelfHex typescriptResults \<noteq> publicKeyNotForSelfHex typescriptResults
         \<and> publicKeyForSelfHex goResults \<noteq> publicKeyNotForSelfHex goResults"
proof -
  obtain invoiceNumber delta where
    inv: "buildInvoiceNumber E protocol keyID = Inr invoiceNumber" and
    br: "deriveBranchScalar E invoiceNumber (to_public_key E (OtherParty Q) (publicPoint root))
           = Inr delta"
    using derivePublicKey_success [OF assms(4)] by blast
  let ?D = "curve_multiply E delta (curve_g E)"
  have t: "derivePublicKey E root protocol keyID (OtherParty Q) True =
             Inr (curve_add E (publicPoint root) ?D)"
    using derivePublicKey_for_self_offset [OF assms(1) assms(2) inv br] .
  have f: "derivePublicKey E root protocol keyID (OtherParty Q) False = Inr (curve_add E Q ?D)"
    using derivePublicKey_not_for_self [OF inv br] by (simp add: to_public_key_def)
  have cancel: "curve_add E (publicPoint root) ?D = curve_add E Q ?D \<Longrightarrow> publicPoint root = Q"
    using assms(1) unfolding curve_laws_def by blast
  have "curve_add E (publicPoint root) ?D \<noteq> curve_add E Q ?D"
    using cancel assms(3) by auto
  with t f have general: "derivePublicKey E root protocol keyID (OtherParty Q) True
           \<noteq> derivePublicKey E root protocol keyID (OtherParty Q) False"
    by simp
  have recorded: "publicKeyForSelfHex typescriptResults \<noteq> publicKeyNotForSelfHex typescriptResults
      \<and> publicKeyForSelfHex goResults \<noteq> publicKeyNotForSelfHex goResults"
    by (simp add: typescriptResults_def goResults_def)
  from general recorded show ?thesis by simp
qed

text \<open>
  The example instance satisfies the hypotheses of C6; the two public keys are 7 and 5.
\<close>

theorem directional_distinctness_witness:
  "curve_laws exampleEnv
   \<and> publicPoint exampleRoot = publicKeyOf exampleEnv (privateScalar exampleRoot)
   \<and> (3 :: 4 word) \<noteq> publicPoint exampleRoot
   \<and> derivePublicKey exampleEnv exampleRoot exampleProtocol ''k1'' (OtherParty 3) True = Inr 7
   \<and> derivePublicKey exampleEnv exampleRoot exampleProtocol ''k1'' (OtherParty 3) False = Inr 5
   \<and> derivePublicKey exampleEnv exampleRoot exampleProtocol ''k1'' (OtherParty 3) True
       \<noteq> derivePublicKey exampleEnv exampleRoot exampleProtocol ''k1'' (OtherParty 3) False"
proof -
  have neq: "(3 :: 4 word) \<noteq> publicPoint exampleRoot"
    by (simp add: exampleRoot_def KeyDeriver_def publicKeyOf_def exampleEnv_def)
  have succ: "ok (derivePublicKey exampleEnv exampleRoot exampleProtocol ''k1'' (OtherParty 3) True)
                \<noteq> None"
    by (simp add: example_public_for_self ok_def)
  show ?thesis
    using directional_distinctness [OF exampleEnv_laws exampleRoot_public neq succ]
      exampleEnv_laws exampleRoot_public neq example_public_for_self example_public_not_for_self
    by simp
qed

section \<open>Error reporting\<close>










text \<open>
  On the example instance the valid input of the earlier sections is accepted, and the same
  input with an empty protocol name, an empty key identifier or the identity point as
  counterparty is answered with the error of its kind.
\<close>

lemma errors_on_the_example:
  "validDerivationInput exampleEnv exampleRoot exampleProtocol ''k1'' (OtherParty 3)"
  "derivePublicKey exampleEnv exampleRoot exampleProtocol [] (OtherParty 3) True
     = Inl InvalidKeyID"
  "derivePrivateKey exampleEnv exampleRoot exampleProtocol [] (OtherParty 3)
     = Inl InvalidKeyID"
  "derivePublicKey exampleEnv exampleRoot exampleProtocol ''k1'' (OtherParty 0) False
     = Inl InvalidReferencePoint"
  "derivePrivateKey exampleEnv exampleRoot exampleProtocol ''k1'' (OtherParty 0)
     = Inl (DerivationFailed InvalidReferencePoint)"
  "derivePublicKey exampleEnv exampleRoot exampleProtocol ''k123456789abcdef'' (OtherParty 3) True
     = Inl DegenerateScalar"
  by (simp_all add: validDerivationInput_def derivePublicKey_def derivePrivateKey_def
      buildInvoiceNumber_def deriveBranchScalar_def to_public_key_def exampleEnv_def
      exampleRoot_def exampleProtocol_def KeyDeriver_def publicKeyOf_def)

end
